theory Spec2Isabelle
  imports Complex_Main "HOL-Library.Sublist"
begin

section \<open>JavaScript strings\<close>

text \<open>
  A JavaScript string is a sequence of code units; it is modelled as a \<^typ>\<open>string\<close>, one
  \<^typ>\<open>char\<close> per code unit, so that \<open>length\<close> is the \<open>.length\<close> of the source. The
  \<^typ>\<open>char\<close> type has 256 values; they are read as the code units U+0000 to U+00FF.
\<close>

text \<open>\<open>s.includes(t)\<close>: scan \<open>s\<close> from the left for a position at which \<open>t\<close> starts.\<close>

fun str_includes :: "string \<Rightarrow> string \<Rightarrow> bool" where
  "str_includes [] t = (t = [])"
| "str_includes (c # cs) t = (prefix t (c # cs) \<or> str_includes cs t)"

text \<open>\<open>s.endsWith(t)\<close>: the last \<open>t.length\<close> code units of \<open>s\<close> are \<open>t\<close>.\<close>

definition endsWith :: "string \<Rightarrow> string \<Rightarrow> bool" where
  "endsWith s t = (length t \<le> length s \<and> drop (length s - length t) s = t)"

text \<open>
  \<open>s.toLowerCase()\<close> on the code units below U+0100: the ASCII capitals and the Latin-1
  capitals U+00C0 to U+00DE (the multiplication sign U+00D7 apart) move up by 32, every
  other code unit stays.
\<close>

definition lower_char :: "char \<Rightarrow> char" where
  "lower_char c =
     (let n = (of_char c :: nat)
      in if (65 \<le> n \<and> n \<le> 90) \<or> (192 \<le> n \<and> n \<le> 222 \<and> n \<noteq> 215)
         then char_of (n + 32) else c)"

definition toLowerCase :: "string \<Rightarrow> string" where
  "toLowerCase s = map lower_char s"

text \<open>
  The decimal numeral of a natural number, as a template literal prints an index. A
  template literal prints a number from \<open>1e21\<close> up in exponent form; the model prints all
  digits.
\<close>

definition digit_char :: "nat \<Rightarrow> char" where
  "digit_char d = char_of (48 + d)"

fun show_nat :: "nat \<Rightarrow> string" where
  "show_nat n = (if n < 10 then [digit_char n] else show_nat (n div 10) @ [digit_char (n mod 10)])"

declare show_nat.simps [simp del]

definition show_int :: "int \<Rightarrow> string" where
  "show_int i = (if i < 0 then CHR ''-'' # show_nat (nat (- i)) else show_nat (nat i))"

section \<open>Impact classification (analysis.service.ts, calculateImpact)\<close>

datatype Impact = Breaking | Major | Minor | Patch

text \<open>
  \<open>calculateImpact(file: any)\<close> reads only \<open>file.changes\<close>; the model takes that count.
  \<^verbatim>\<open>
    if (file.changes > 500) return 'major';
    if (file.changes > 100) return 'minor';
    return 'patch';
  \<close>
\<close>

definition calculateImpact :: "int \<Rightarrow> Impact" where
  "calculateImpact changes =
     (if changes > 500 then Major
      else if changes > 100 then Minor
      else Patch)"

section \<open>Token estimate and truncation (azure-openai.service.ts)\<close>




section \<open>Errors\<close>

text \<open>
  What the source throws or sends down an observable's error channel is a JavaScript
  object of which the orchestrator reads \<open>code\<close> and \<open>message\<close>; either property may be
  absent (\<open>None\<close>).
\<close>

record js_error =
  e_code :: "string option"
  e_message :: "string option"

text \<open>
  A \<open>TypeError\<close> raised by the engine (a property read on \<open>undefined\<close> or \<open>null\<close>, a call
  of something that is not a function) is an \<open>Error\<close> instance: it has no \<open>code\<close>, and its
  message is engine text, kept here as the error's name.
\<close>

definition TypeError :: js_error where
  "TypeError = \<lparr>e_code = None, e_message = Some ''TypeError''\<rparr>"

text \<open>\<open>new Error(msg)\<close>.\<close>

definition Error :: "string \<Rightarrow> js_error" where
  "Error msg = \<lparr>e_code = None, e_message = Some msg\<rparr>"

section \<open>GitHub models (github.model.ts)\<close>

text \<open>
  Record fields carry a prefix naming their interface (\<open>gf_\<close> for \<open>GitHubFile\<close>, \<open>pr_\<close> for
  \<open>GitHubPullRequest\<close>, and so on), since the interfaces of the source share field names.
  \<open>status\<close> is a string at run time: the gateway copies it from the wire unchecked.
  TypeScript's \<open>patch: string\<close> is erased at run time; \<open>gf_patch = None\<close> is a file object
  whose \<open>patch\<close> is \<open>undefined\<close>. The gateway's \<open>mapFileResponse\<close> stores
  \<open>file.patch || ''\<close>, so the files it delivers carry a patch; a file object built
  elsewhere need not.
\<close>

record GitHubFile =
  gf_filename :: string
  gf_status :: string
  gf_additions :: int
  gf_deletions :: int
  gf_changes :: int
  gf_patch :: "string option"
  gf_previousFilename :: "string option"

record GitHubCommit =
  gc_sha :: string
  gc_message :: string
  gc_author :: string
  gc_date :: string

record Repository =
  repo_owner :: string
  repo_name :: string
  repo_fullName :: string

record GitHubPullRequest =
  pr_id :: int
  pr_number :: int
  pr_title :: string
  pr_description :: string
  pr_state :: string
  pr_author :: string
  pr_createdAt :: string
  pr_updatedAt :: string
  pr_filesChanged :: int
  pr_additions :: int
  pr_deletions :: int
  pr_repository :: Repository
  pr_files :: "GitHubFile list"
  pr_commits :: "GitHubCommit list"

section \<open>Derived, non-AI signals (analysis.service.ts)\<close>

datatype ChangeType = Feature | Bugfix | Refactor | Style | Test | Docs

record CodeChange =
  cc_file :: string
  cc_type :: ChangeType
  cc_description :: string
  cc_impact :: Impact
  cc_linesChanged :: int

datatype SchemaChangeType = Table | Column | Index | Constraint | Migration

datatype SchemaAction = Add | Modify | Remove

record SchemaChange =
  sc_type :: SchemaChangeType
  sc_action :: SchemaAction
  sc_entity :: string
  sc_description :: string
  sc_sqlScript :: "string option"
  sc_rollbackScript :: "string option"
  sc_breakingChange :: bool

text \<open>
  \<open>detectChangeType(filename)\<close>: the first test that holds decides.
\<close>

definition detectChangeType :: "string \<Rightarrow> ChangeType" where
  "detectChangeType filename =
     (if str_includes filename ''test'' then Test
      else if endsWith filename ''.md'' then Docs
      else if endsWith filename ''.css'' \<or> endsWith filename ''.scss'' then Style
      else Feature)"

text \<open>\<open>mapCodeChanges(prData)\<close>: one \<open>CodeChange\<close> per file, in order.\<close>

definition mapCodeChanges :: "GitHubPullRequest \<Rightarrow> CodeChange list" where
  "mapCodeChanges prData =
     map (\<lambda>file.
        \<lparr>cc_file = gf_filename file,
         cc_type = detectChangeType (gf_filename file),
         cc_description = gf_status file @ '' '' @ gf_filename file,
         cc_impact = calculateImpact (gf_changes file),
         cc_linesChanged = gf_changes file\<rparr>) (pr_files prData)"

text \<open>
  \<open>detectSchemaChanges(prData)\<close>. The source walks \<open>prData.files\<close> with \<open>forEach\<close> and pushes
  onto \<open>schemaChanges\<close>; the loop carries that array as \<open>acc\<close>. The object literal is
  evaluated field by field, and \<open>file.patch.toLowerCase()\<close> on a file whose \<open>patch\<close> is
  \<open>undefined\<close> raises a \<open>TypeError\<close>, which leaves the loop and the function.
  \<^verbatim>\<open>
    prData.files.forEach((file) => {
      if (file.filename.includes('migration') || file.filename.includes('schema') ||
          file.filename.endsWith('.sql')) {
        schemaChanges.push({
          type: 'migration',
          action: file.status === 'added' ? 'add' : 'modify',
          entity: file.filename,
          description: `Database change in ${file.filename}`,
          sqlScript: file.patch,
          breakingChange: file.patch.toLowerCase().includes('drop'),
        });
      }
    });
    return schemaChanges;
  \<close>
\<close>

fun detectSchemaChanges_loop ::
  "GitHubFile list \<Rightarrow> SchemaChange list \<Rightarrow> js_error + SchemaChange list" where
  "detectSchemaChanges_loop [] acc = Inr acc"
| "detectSchemaChanges_loop (file # files) acc =
     (if str_includes (gf_filename file) ''migration''
         \<or> str_includes (gf_filename file) ''schema''
         \<or> endsWith (gf_filename file) ''.sql''
      then (case gf_patch file of
              None \<Rightarrow> Inl TypeError
            | Some patch \<Rightarrow>
                detectSchemaChanges_loop files
                  (acc @ [\<lparr>sc_type = Migration,
                           sc_action = (if gf_status file = ''added'' then Add else Modify),
                           sc_entity = gf_filename file,
                           sc_description = ''Database change in '' @ gf_filename file,
                           sc_sqlScript = Some patch,
                           sc_rollbackScript = None,
                           sc_breakingChange = str_includes (toLowerCase patch) ''drop''\<rparr>]))
      else detectSchemaChanges_loop files acc)"

definition detectSchemaChanges :: "GitHubPullRequest \<Rightarrow> js_error + SchemaChange list" where
  "detectSchemaChanges prData = detectSchemaChanges_loop (pr_files prData) []"

subsection \<open>The heuristic in the words of the specification\<close>

text \<open>
  These three definitions follow the specification's sentences, not the code; the
  theorems on \<open>detectSchemaChanges\<close> compare the code with them. \<^const>\<open>sublist\<close> is
  ``occurs as a contiguous substring'', \<^const>\<open>suffix\<close> is ``ends with''.
\<close>

definition spec_flagged :: "GitHubFile \<Rightarrow> bool" where
  "spec_flagged f \<longleftrightarrow>
     sublist ''migration'' (gf_filename f) \<or> sublist ''schema'' (gf_filename f)
     \<or> suffix ''.sql'' (gf_filename f)"

definition spec_action :: "GitHubFile \<Rightarrow> SchemaAction" where
  "spec_action f = (if gf_status f = ''added'' then Add else Modify)"

text \<open>Some substring of the patch is \<open>drop\<close> up to the case of its letters.\<close>

definition spec_breaking :: "string \<Rightarrow> bool" where
  "spec_breaking patch \<longleftrightarrow> (\<exists>u. sublist u patch \<and> toLowerCase u = ''drop'')"

text \<open>The \<open>SchemaChange\<close> the specification's sentences describe for a flagged file.\<close>

definition schemaChangeOf :: "GitHubFile \<Rightarrow> SchemaChange" where
  "schemaChangeOf f =
     \<lparr>sc_type = Migration, sc_action = spec_action f, sc_entity = gf_filename f,
      sc_description = ''Database change in '' @ gf_filename f,
      sc_sqlScript = gf_patch f, sc_rollbackScript = None,
      sc_breakingChange = spec_breaking (the (gf_patch f))\<rparr>"

section \<open>Dynamic values\<close>

text \<open>
  The provider's JSON reaches the orchestrator typed \<open>any\<close>. A value of that kind is
  \<open>undefined\<close>, \<open>null\<close>, a boolean, a number, a string, an array or an object (its own
  properties in order). Numbers are carried as integers: the source only tests them for
  being zero (falsy) and prints array lengths and indices.
\<close>

datatype jsval =
    JUndefined
  | JNull
  | JBool bool
  | JNum int
  | JStr string
  | JArr "jsval list"
  | JObj "(string \<times> jsval) list"

text \<open>A property read on \<open>undefined\<close> or \<open>null\<close> raises a \<open>TypeError\<close>.\<close>

definition nullish :: "jsval \<Rightarrow> bool" where
  "nullish v \<longleftrightarrow> v = JUndefined \<or> v = JNull"

text \<open>
  \<open>v.k\<close> on a value that is not nullish, for the property names the source reads (none
  of them is a property of the built-in prototypes): an object yields its own property
  or \<open>undefined\<close>, every other value yields \<open>undefined\<close>.
\<close>

fun get_prop :: "jsval \<Rightarrow> string \<Rightarrow> jsval" where
  "get_prop (JObj kvs) k = (case map_of kvs k of None \<Rightarrow> JUndefined | Some v \<Rightarrow> v)"
| "get_prop v k = JUndefined"

text \<open>JavaScript truthiness, and \<open>a || b\<close>.\<close>

fun truthy :: "jsval \<Rightarrow> bool" where
  "truthy JUndefined = False"
| "truthy JNull = False"
| "truthy (JBool b) = b"
| "truthy (JNum n) = (n \<noteq> 0)"
| "truthy (JStr s) = (s \<noteq> [])"
| "truthy (JArr xs) = True"
| "truthy (JObj kvs) = True"

definition js_or :: "jsval \<Rightarrow> jsval \<Rightarrow> jsval" where
  "js_or a b = (if truthy a then a else b)"

text \<open>
  \<open>xs.map((x, index) => f(x, index))\<close>: elements left to right, the index counting from
  the start; the first callback that throws ends the call. On a value that is not an array
  the call itself raises a \<open>TypeError\<close> (there is no \<open>map\<close> to call).
\<close>

fun map_indexed :: "(jsval \<Rightarrow> nat \<Rightarrow> js_error + 'b) \<Rightarrow> jsval list \<Rightarrow> nat \<Rightarrow> js_error + 'b list" where
  "map_indexed f [] i = Inr []"
| "map_indexed f (x # xs) i =
     (case f x i of
        Inl e \<Rightarrow> Inl e
      | Inr y \<Rightarrow> (case map_indexed f xs (Suc i) of Inl e \<Rightarrow> Inl e | Inr ys \<Rightarrow> Inr (y # ys)))"

definition array_map :: "jsval \<Rightarrow> (jsval \<Rightarrow> nat \<Rightarrow> js_error + 'b) \<Rightarrow> js_error + 'b list" where
  "array_map v f = (case v of JArr xs \<Rightarrow> map_indexed f xs 0 | _ \<Rightarrow> Inl TypeError)"

text \<open>Sequencing of computations that may throw.\<close>

definition bindE :: "js_error + 'a \<Rightarrow> ('a \<Rightarrow> js_error + 'b) \<Rightarrow> js_error + 'b" where
  "bindE m f = (case m of Inl e \<Rightarrow> Inl e | Inr x \<Rightarrow> f x)"

section \<open>AI response parsing (azure-openai.service.ts)\<close>

record AIAnalysisResponse =
  ai_suggestions :: jsval
  ai_security :: jsval
  ai_performance :: jsval
  ai_recommendations :: jsval
  ai_tests :: jsval







section \<open>Analysis result models (analysis.model.ts)\<close>

text \<open>
  Fields the mappers copy straight from a provider element keep the provider's value,
  whatever it is, so they are \<^typ>\<open>jsval\<close>; the declared TypeScript types are erased.
\<close>

record CodeSuggestion =
  cs_id :: string
  cs_file :: jsval
  cs_line :: jsval
  cs_column :: jsval
  cs_message :: jsval
  cs_severity :: jsval
  cs_category :: jsval
  cs_suggestedCode :: jsval
  cs_reasoning :: jsval

record SecurityIssue =
  si_id :: string
  si_file :: jsval
  si_line :: jsval
  si_issue :: jsval
  si_severity :: jsval
  si_recommendation :: jsval
  si_cwe :: jsval
  si_owasp :: jsval

record PerformanceIssue =
  pi_id :: string
  pi_file :: jsval
  pi_line :: jsval
  pi_issue :: jsval
  pi_impact :: jsval
  pi_recommendation :: jsval
  pi_estimatedImprovement :: jsval

record TestScenario =
  ts_id :: string
  ts_title :: jsval
  ts_description :: jsval
  ts_priority :: jsval
  ts_category :: jsval
  ts_steps :: jsval
  ts_expectedResult :: jsval
  ts_testData :: jsval
  ts_preconditions :: jsval
  ts_postconditions :: jsval

record TestCase =
  tc_id :: string
  tc_scenario :: jsval
  tc_title :: jsval
  tc_description :: jsval
  tc_type :: string
  tc_file :: string
  tc_assertions :: "jsval list"

record Recommendation =
  rec_id :: string
  rec_category :: jsval
  rec_priority :: jsval
  rec_title :: jsval
  rec_description :: jsval
  rec_reasoning :: jsval
  rec_effort :: string
  rec_impact :: string

record AnalysisResult =
  ar_id :: string
  ar_prUrl :: string
  ar_timestamp :: string
  ar_summary :: string
  ar_suggestions :: "CodeSuggestion list"
  ar_security :: "SecurityIssue list"
  ar_performance :: "PerformanceIssue list"
  ar_codeChanges :: "CodeChange list"
  ar_schemaChanges :: "SchemaChange list"
  ar_testScenarios :: "TestScenario list"
  ar_testCases :: "TestCase list"
  ar_recommendations :: "Recommendation list"

section \<open>Mapping the provider's arrays (analysis.service.ts)\<close>

text \<open>
  Each mapper is \<open>xs.map((x, index) => ({ id: `<kind>-${index}`, ... }))\<close>. The callback
  reads properties of the element, which throws on a \<open>null\<close> element.
\<close>

definition mapSuggestion :: "jsval \<Rightarrow> nat \<Rightarrow> js_error + CodeSuggestion" where
  "mapSuggestion s index =
     (if nullish s then Inl TypeError
      else Inr \<lparr>cs_id = ''suggestion-'' @ show_nat index,
                cs_file = get_prop s ''file'',
                cs_line = get_prop s ''line'',
                cs_column = get_prop s ''column'',
                cs_message = get_prop s ''message'',
                cs_severity = js_or (get_prop s ''severity'') (JStr ''info''),
                cs_category = js_or (get_prop s ''category'') (JStr ''best-practice''),
                cs_suggestedCode = get_prop s ''suggestedCode'',
                cs_reasoning = get_prop s ''reasoning''\<rparr>)"

definition mapSuggestions :: "jsval \<Rightarrow> js_error + CodeSuggestion list" where
  "mapSuggestions suggestions = array_map suggestions mapSuggestion"

definition mapSecurityIssue :: "jsval \<Rightarrow> nat \<Rightarrow> js_error + SecurityIssue" where
  "mapSecurityIssue issue index =
     (if nullish issue then Inl TypeError
      else Inr \<lparr>si_id = ''security-'' @ show_nat index,
                si_file = get_prop issue ''file'',
                si_line = get_prop issue ''line'',
                si_issue = get_prop issue ''issue'',
                si_severity = js_or (get_prop issue ''severity'') (JStr ''medium''),
                si_recommendation = get_prop issue ''recommendation'',
                si_cwe = get_prop issue ''cwe'',
                si_owasp = get_prop issue ''owasp''\<rparr>)"

definition mapSecurityIssues :: "jsval \<Rightarrow> js_error + SecurityIssue list" where
  "mapSecurityIssues issues = array_map issues mapSecurityIssue"

definition mapPerformanceIssue :: "jsval \<Rightarrow> nat \<Rightarrow> js_error + PerformanceIssue" where
  "mapPerformanceIssue issue index =
     (if nullish issue then Inl TypeError
      else Inr \<lparr>pi_id = ''performance-'' @ show_nat index,
                pi_file = get_prop issue ''file'',
                pi_line = get_prop issue ''line'',
                pi_issue = get_prop issue ''issue'',
                pi_impact = js_or (get_prop issue ''impact'') (JStr ''medium''),
                pi_recommendation = get_prop issue ''recommendation'',
                pi_estimatedImprovement = get_prop issue ''estimatedImprovement''\<rparr>)"

definition mapPerformanceIssues :: "jsval \<Rightarrow> js_error + PerformanceIssue list" where
  "mapPerformanceIssues issues = array_map issues mapPerformanceIssue"

definition mapTestScenario :: "jsval \<Rightarrow> nat \<Rightarrow> js_error + TestScenario" where
  "mapTestScenario test index =
     (if nullish test then Inl TypeError
      else Inr \<lparr>ts_id = ''scenario-'' @ show_nat index,
                ts_title = get_prop test ''title'',
                ts_description = get_prop test ''description'',
                ts_priority = js_or (get_prop test ''priority'') (JStr ''medium''),
                ts_category = js_or (get_prop test ''category'') (JStr ''functional''),
                ts_steps = js_or (get_prop test ''steps'') (JArr []),
                ts_expectedResult = js_or (get_prop test ''expected'') (JStr []),
                ts_testData = get_prop test ''testData'',
                ts_preconditions = get_prop test ''preconditions'',
                ts_postconditions = get_prop test ''postconditions''\<rparr>)"

definition mapTestScenarios :: "jsval \<Rightarrow> js_error + TestScenario list" where
  "mapTestScenarios tests = array_map tests mapTestScenario"

definition mapTestCase :: "jsval \<Rightarrow> nat \<Rightarrow> js_error + TestCase" where
  "mapTestCase scenario index =
     (if nullish scenario then Inl TypeError
      else Inr \<lparr>tc_id = ''test-'' @ show_nat index,
                tc_scenario = get_prop scenario ''title'',
                tc_title = get_prop scenario ''title'',
                tc_description = get_prop scenario ''description'',
                tc_type = ''integration'',
                tc_file = ''test/integration/'',
                tc_assertions = [get_prop scenario ''expected'']\<rparr>)"

definition mapTestCases :: "jsval \<Rightarrow> js_error + TestCase list" where
  "mapTestCases scenarios = array_map scenarios mapTestCase"

definition mapRecommendation :: "jsval \<Rightarrow> nat \<Rightarrow> js_error + Recommendation" where
  "mapRecommendation r index =
     (if nullish r then Inl TypeError
      else Inr \<lparr>rec_id = ''rec-'' @ show_nat index,
                rec_category = js_or (get_prop r ''category'') (JStr ''maintainability''),
                rec_priority = js_or (get_prop r ''priority'') (JStr ''medium''),
                rec_title = get_prop r ''title'',
                rec_description = get_prop r ''description'',
                rec_reasoning = js_or (get_prop r ''reasoning'') (JStr []),
                rec_effort = ''medium'',
                rec_impact = ''medium''\<rparr>)"

definition mapRecommendations :: "jsval \<Rightarrow> js_error + Recommendation list" where
  "mapRecommendations recommendations = array_map recommendations mapRecommendation"

section \<open>PR locator (github.service.ts)\<close>

record ParsedPRUrl =
  pu_owner :: string
  pu_repo :: string
  pu_prNumber :: int

definition is_digit :: "char \<Rightarrow> bool" where
  "is_digit c \<longleftrightarrow> c \<in> set ''0123456789''"

text \<open>
  \<open>parseInt(digits, 10)\<close> on a non-empty run of decimal digits. The source's result is a
  double, rounded above \<open>2^53\<close>; the model keeps the exact number. Whether a URL matches
  does not depend on it.
\<close>

definition parse_digits :: "string \<Rightarrow> nat" where
  "parse_digits ds = foldl (\<lambda>n c. 10 * n + (of_char c - 48)) 0 ds"

text \<open>
  The regular expression \<open>/github\.com\/([^\/]+)\/([^\/]+)\/pull\/(\d+)/\<close> tried at the
  start of \<open>s\<close>. A group \<open>[^\/]+\<close> followed by \<open>\/\<close> can only end at the next slash, so the
  match at a position is unique: no backtracking changes it.
\<close>

definition match_pr_at :: "string \<Rightarrow> ParsedPRUrl option" where
  "match_pr_at s =
     (if prefix ''github.com/'' s then
        (let r1 = drop 11 s;
             owner = takeWhile (\<lambda>c. c \<noteq> CHR ''/'') r1;
             r2 = dropWhile (\<lambda>c. c \<noteq> CHR ''/'') r1
         in if owner = [] \<or> r2 = [] then None
            else (let r3 = tl r2;
                      repo = takeWhile (\<lambda>c. c \<noteq> CHR ''/'') r3;
                      r4 = dropWhile (\<lambda>c. c \<noteq> CHR ''/'') r3
                  in if repo = [] \<or> \<not> prefix ''/pull/'' r4 then None
                     else (let digits = takeWhile is_digit (drop 6 r4)
                           in if digits = [] then None
                              else Some \<lparr>pu_owner = owner, pu_repo = repo,
                                         pu_prNumber = int (parse_digits digits)\<rparr>)))
      else None)"

text \<open>\<open>url.match(regex)\<close> without the global flag: the leftmost position that matches.\<close>

fun parsePRUrl :: "string \<Rightarrow> ParsedPRUrl option" where
  "parsePRUrl [] = match_pr_at []"
| "parsePRUrl (c # cs) =
     (case match_pr_at (c # cs) of Some p \<Rightarrow> Some p | None \<Rightarrow> parsePRUrl cs)"

definition isValidPRUrl :: "string \<Rightarrow> bool" where
  "isValidPRUrl url \<longleftrightarrow> parsePRUrl url \<noteq> None"

section \<open>The status signal and the service state (analysis.service.ts)\<close>

datatype AnalysisPhase = Pending | Analyzing | Completed | Failed

record AnalysisError =
  ae_code :: string
  ae_message :: string
  ae_timestamp :: string

record AnalysisStatus =
  as_status :: AnalysisPhase
  as_progress :: int
  as_currentStep :: "string option"
  as_error :: "AnalysisError option"

text \<open>
  The fields of the service: the \<open>status\<close> signal's current value, the GitHub token and
  the model repository URL. \<open>svc_published\<close> is not a field of the source: it records, oldest
  first, every value \<open>status.set\<close> was called with, which is what an observer of the signal
  sees.
\<close>

record AnalysisService =
  svc_status :: AnalysisStatus
  svc_githubToken :: string
  svc_modelRepoUrl :: string
  svc_published :: "AnalysisStatus list"

definition initial_service :: AnalysisService where
  "initial_service =
     \<lparr>svc_status = \<lparr>as_status = Pending, as_progress = 0, as_currentStep = None,
                     as_error = None\<rparr>,
      svc_githubToken = [], svc_modelRepoUrl = [], svc_published = []\<rparr>"

definition setGitHubToken :: "string \<Rightarrow> AnalysisService \<Rightarrow> AnalysisService" where
  "setGitHubToken token svc = svc\<lparr>svc_githubToken := token\<rparr>"

definition setModelRepoUrl :: "string \<Rightarrow> AnalysisService \<Rightarrow> AnalysisService" where
  "setModelRepoUrl url svc = svc\<lparr>svc_modelRepoUrl := url\<rparr>"

definition updateStatus ::
  "AnalysisPhase \<Rightarrow> int \<Rightarrow> string option \<Rightarrow> AnalysisError option
   \<Rightarrow> AnalysisService \<Rightarrow> AnalysisService" where
  "updateStatus st progress currentStep err svc =
     (let v = \<lparr>as_status = st, as_progress = progress, as_currentStep = currentStep,
                as_error = err\<rparr>
      in svc\<lparr>svc_status := v, svc_published := svc_published svc @ [v]\<rparr>)"

section \<open>The collaborators\<close>

record RepoContext =
  ctx_codingStandards :: string
  ctx_architecturePatterns :: string
  ctx_testingGuidelines :: string

record PRMetadata =
  md_title :: string
  md_description :: string
  md_files :: int
  md_additions :: int
  md_deletions :: int

record AIAnalysisRequest =
  req_diff :: string
  req_prMetadata :: PRMetadata
  req_context :: RepoContext

text \<open>
  The calls that leave the orchestrator: the three GitHub fetches, the context load and
  the two AI calls. Each returns a cold observable that, once subscribed, either errors
  or delivers one value and completes; the world gives that outcome for the arguments of
  the call (\<open>Inl\<close> the error). Inside \<open>generateTests\<close> and \<open>analyzePR\<close> every failure
  (an invalid configuration, a failed request, an unparsable body) is sent down the
  error channel with \<open>throwError\<close>; nothing is thrown at the call. The clock reading and
  the generated identifier of a run are taken from the world as well.
\<close>

record World =
  w_fetchPullRequest :: "string \<Rightarrow> string \<Rightarrow> js_error + GitHubPullRequest"
  w_fetchPRFiles :: "string \<Rightarrow> string \<Rightarrow> int \<Rightarrow> string \<Rightarrow> js_error + GitHubFile list"
  w_fetchPRCommits :: "string \<Rightarrow> string \<Rightarrow> int \<Rightarrow> string \<Rightarrow> js_error + GitHubCommit list"
  w_loadModelRepoContext :: "string \<Rightarrow> string \<Rightarrow> js_error + RepoContext"
  w_analyzePR :: "AIAnalysisRequest \<Rightarrow> js_error + AIAnalysisResponse"
  w_generateTests :: "string \<Rightarrow> string \<Rightarrow> js_error + jsval"
  w_now :: string
  w_generateId :: string

text \<open>
  \<open>forkJoin({pr, files, commits})\<close>: all three must deliver; if one errors the join errors.
  When more than one errors, the join delivers the error that arrives first; the model
  takes the first in source order.
\<close>

definition forkJoin3 ::
  "js_error + 'a \<Rightarrow> js_error + 'b \<Rightarrow> js_error + 'c \<Rightarrow> js_error + ('a \<times> 'b \<times> 'c)" where
  "forkJoin3 a b c =
     (case a of
        Inl e \<Rightarrow> Inl e
      | Inr x \<Rightarrow> (case b of
                   Inl e \<Rightarrow> Inl e
                 | Inr y \<Rightarrow> (case c of Inl e \<Rightarrow> Inl e | Inr z \<Rightarrow> Inr (x, y, z))))"

section \<open>The pipeline (analysis.service.ts)\<close>

text \<open>\<open>xs.join(sep)\<close> on an array of strings.\<close>

fun join :: "string \<Rightarrow> string list \<Rightarrow> string" where
  "join sep [] = []"
| "join sep [x] = x"
| "join sep (x # y # ys) = x @ sep @ join sep (y # ys)"

text \<open>
  The diff both AI steps build:
  \<open>prData.files.map((file) => `File: ${file.filename}\n${file.patch}`).join('\n\n')\<close>.
  A template literal prints an \<open>undefined\<close> patch as the text \<open>undefined\<close>.
\<close>

definition buildDiff :: "GitHubFile list \<Rightarrow> string" where
  "buildDiff files =
     join [CHR 0x0A, CHR 0x0A]
       (map (\<lambda>file. ''File: '' @ gf_filename file @ [CHR 0x0A]
                      @ (case gf_patch file of None \<Rightarrow> ''undefined'' | Some p \<Rightarrow> p)) files)"

text \<open>The \<open>length\<close> property of a value that is not nullish.\<close>

fun js_length :: "jsval \<Rightarrow> jsval" where
  "js_length (JArr xs) = JNum (int (length xs))"
| "js_length (JStr s) = JNum (int (length s))"
| "js_length v = get_prop v ''length''"

text \<open>What a template literal prints for a value.\<close>

fun template_str :: "jsval \<Rightarrow> string" where
  "template_str JUndefined = ''undefined''"
| "template_str JNull = ''null''"
| "template_str (JBool b) = (if b then ''true'' else ''false'')"
| "template_str (JNum n) = show_int n"
| "template_str (JStr s) = s"
| "template_str (JArr xs) =
     join '','' (map (\<lambda>x. if x = JUndefined \<or> x = JNull then [] else template_str x) xs)"
| "template_str (JObj kvs) = ''[object Object]''"

text \<open>
  \<open>aiResult.security.filter((s) => s.severity === 'critical').length\<close>: a \<open>TypeError\<close> when
  \<open>security\<close> is not an array or holds a \<open>null\<close>.
\<close>

definition count_critical :: "jsval \<Rightarrow> js_error + nat" where
  "count_critical security =
     (case security of
        JArr xs \<Rightarrow>
          if list_ex nullish xs then Inl TypeError
          else Inr (length (filter (\<lambda>s. get_prop s ''severity'' = JStr ''critical'') xs))
      | _ \<Rightarrow> Inl TypeError)"

definition generateSummary :: "GitHubPullRequest \<Rightarrow> AIAnalysisResponse \<Rightarrow> js_error + string" where
  "generateSummary prData aiResult =
     bindE (count_critical (ai_security aiResult)) (\<lambda>criticalIssues.
       if nullish (ai_suggestions aiResult) then Inl TypeError
       else Inr (''PR #'' @ show_int (pr_number prData) @ '': '' @ pr_title prData
                 @ ''. Found '' @ template_str (js_length (ai_suggestions aiResult))
                 @ '' suggestions''
                 @ (if criticalIssues > 0
                    then '' and '' @ show_nat criticalIssues @ '' critical security issues''
                    else [])
                 @ ''.''))"

text \<open>
  A step of the pipeline runs on the service state and returns what its observable
  delivers, with the state after the status updates it made.
\<close>

type_synonym 'a step = "AnalysisService \<Rightarrow> (js_error + 'a) \<times> AnalysisService"

text \<open>
  \<open>source.pipe(switchMap(f))\<close> for a source that delivers one value: run \<open>f\<close> on it; an
  error of the source skips \<open>f\<close>.
\<close>

definition switchMap :: "'a step \<Rightarrow> ('a \<Rightarrow> 'b step) \<Rightarrow> 'b step" where
  "switchMap source f svc =
     (case source svc of
        (Inl e, svc') \<Rightarrow> (Inl e, svc')
      | (Inr x, svc') \<Rightarrow> f x svc')"

text \<open>Step 1: \<open>fetchPRData(prUrl)\<close>.\<close>

definition fetchPRData :: "World \<Rightarrow> string \<Rightarrow> GitHubPullRequest step" where
  "fetchPRData w prUrl svc =
     (let svc' = updateStatus Analyzing 10 (Some ''Fetching PR data...'') None svc
      in case parsePRUrl prUrl of
           None \<Rightarrow> (Inl (Error ''Invalid PR URL''), svc')
         | Some parsed \<Rightarrow>
             (case forkJoin3
                     (w_fetchPullRequest w prUrl (svc_githubToken svc'))
                     (w_fetchPRFiles w (pu_owner parsed) (pu_repo parsed) (pu_prNumber parsed)
                        (svc_githubToken svc'))
                     (w_fetchPRCommits w (pu_owner parsed) (pu_repo parsed) (pu_prNumber parsed)
                        (svc_githubToken svc'))
              of Inl e \<Rightarrow> (Inl e, svc')
               | Inr (pr, files, commits) \<Rightarrow>
                   (Inr (pr\<lparr>pr_files := files, pr_commits := commits\<rparr>), svc')))"

text \<open>Step 2: \<open>loadContext()\<close>.\<close>

definition loadContext :: "World \<Rightarrow> RepoContext step" where
  "loadContext w svc =
     (let svc' = updateStatus Analyzing 30 (Some ''Loading coding standards...'') None svc
      in if svc_modelRepoUrl svc' = []
         then (Inr \<lparr>ctx_codingStandards = [], ctx_architecturePatterns = [],
                     ctx_testingGuidelines = []\<rparr>, svc')
         else (w_loadModelRepoContext w (svc_modelRepoUrl svc') (svc_githubToken svc'), svc'))"

text \<open>Step 3: \<open>performAIAnalysis(prData, context)\<close>.\<close>

definition performAIAnalysis ::
  "World \<Rightarrow> GitHubPullRequest \<Rightarrow> RepoContext \<Rightarrow> AIAnalysisResponse step" where
  "performAIAnalysis w prData context svc =
     (let svc' = updateStatus Analyzing 50 (Some ''Analyzing code with AI...'') None svc;
          request = \<lparr>req_diff = buildDiff (pr_files prData),
                     req_prMetadata =
                       \<lparr>md_title = pr_title prData, md_description = pr_description prData,
                        md_files = pr_filesChanged prData, md_additions = pr_additions prData,
                        md_deletions = pr_deletions prData\<rparr>,
                     req_context =
                       \<lparr>ctx_codingStandards = ctx_codingStandards context,
                        ctx_architecturePatterns = ctx_architecturePatterns context,
                        ctx_testingGuidelines = ctx_testingGuidelines context\<rparr>\<rparr>
      in (w_analyzePR w request, svc'))"

text \<open>
  Step 4: \<open>generateTestCases(prData, aiResult)\<close>. The inner \<open>catchError\<close> replaces any error
  of \<open>generateTests\<close> by the value \<open>{ scenarios: [] }\<close>.
\<close>

definition generateTestCases ::
  "World \<Rightarrow> GitHubPullRequest \<Rightarrow> AIAnalysisResponse \<Rightarrow> jsval step" where
  "generateTestCases w prData aiResult svc =
     (let svc' = updateStatus Analyzing 75 (Some ''Generating test cases...'') None svc
      in (case w_generateTests w (buildDiff (pr_files prData))
                 ''Generate comprehensive test cases''
          of Inl e \<Rightarrow> Inr (JObj [(''scenarios'', JArr [])])
           | Inr tests \<Rightarrow> Inr tests, svc'))"

text \<open>
  Step 5: \<open>formatAnalysisResult(prData, aiResult, testData)\<close>. The status is set first;
  then the object literal is evaluated field by field and the first field that throws
  ends it. \<open>testData.scenarios\<close> throws on a nullish \<open>testData\<close>.
\<close>

definition formatAnalysisResult ::
  "World \<Rightarrow> GitHubPullRequest \<Rightarrow> AIAnalysisResponse \<Rightarrow> jsval \<Rightarrow> AnalysisResult step" where
  "formatAnalysisResult w prData aiResult testData svc =
     (let svc' = updateStatus Completed 100 (Some ''Analysis complete'') None svc
      in (bindE (generateSummary prData aiResult) (\<lambda>summary.
          bindE (mapSuggestions (ai_suggestions aiResult)) (\<lambda>suggestions.
          bindE (mapSecurityIssues (ai_security aiResult)) (\<lambda>security.
          bindE (mapPerformanceIssues (ai_performance aiResult)) (\<lambda>performance.
          bindE (detectSchemaChanges prData) (\<lambda>schemaChanges.
          bindE (mapTestScenarios (ai_tests aiResult)) (\<lambda>testScenarios.
          bindE (if nullish testData then Inl TypeError
                 else Inr (js_or (get_prop testData ''scenarios'') (JArr []))) (\<lambda>scenarios.
          bindE (mapTestCases scenarios) (\<lambda>testCases.
          bindE (mapRecommendations (ai_recommendations aiResult)) (\<lambda>recommendations.
            Inr \<lparr>ar_id = w_generateId w,
                 ar_prUrl = ''https://github.com/'' @ repo_fullName (pr_repository prData)
                            @ ''/pull/'' @ show_int (pr_number prData),
                 ar_timestamp = w_now w,
                 ar_summary = summary,
                 ar_suggestions = suggestions,
                 ar_security = security,
                 ar_performance = performance,
                 ar_codeChanges = mapCodeChanges prData,
                 ar_schemaChanges = schemaChanges,
                 ar_testScenarios = testScenarios,
                 ar_testCases = testCases,
                 ar_recommendations = recommendations\<rparr>))))))))), svc'))"

text \<open>
  The outer \<open>catchError\<close>: publish \<open>failed\<close> with progress 0 and the error's code and message
  (\<open>error.code || 'ANALYSIS_ERROR'\<close>, \<open>error.message || 'Analysis failed'\<close>), then rethrow.
\<close>

definition or_default :: "string option \<Rightarrow> string \<Rightarrow> string" where
  "or_default v d = (case v of None \<Rightarrow> d | Some s \<Rightarrow> if s = [] then d else s)"

definition catchError_failed :: "World \<Rightarrow> 'a step \<Rightarrow> 'a step" where
  "catchError_failed w source svc =
     (case source svc of
        (Inr x, svc') \<Rightarrow> (Inr x, svc')
      | (Inl error, svc') \<Rightarrow>
          (Inl error,
           updateStatus Failed 0 None
             (Some \<lparr>ae_code = or_default (e_code error) ''ANALYSIS_ERROR'',
                    ae_message = or_default (e_message error) ''Analysis failed'',
                    ae_timestamp = w_now w\<rparr>) svc'))"

text \<open>
  \<open>analyzePullRequest(prUrl)\<close>, called and subscribed to once. The two validation branches
  return \<open>throwError(...)\<close> before anything else is done. Otherwise the status is reset,
  \<open>fetchPRData\<close> is called (it sets the status at the call), and the pipe runs on
  subscription:
  \<^verbatim>\<open>
    this.updateStatus('analyzing', 0, 'Fetching PR data...');
    return this.fetchPRData(prUrl).pipe(
      switchMap((prData) => this.loadContext().pipe(map((context) => ({ prData, context })))),
      switchMap(({ prData, context }) => this.performAIAnalysis(prData, context).pipe(...)),
      switchMap(({ prData, context, aiResult }) => this.generateTestCases(prData, aiResult).pipe(...)),
      map(({ prData, aiResult, tests }) => this.formatAnalysisResult(prData, aiResult, tests)),
      catchError((error) => { this.updateStatus('failed', 0, undefined, {...}); return throwError(() => error); })
    );
  \<close>
\<close>

definition analysis_pipe :: "World \<Rightarrow> string \<Rightarrow> AnalysisResult step" where
  "analysis_pipe w prUrl =
     switchMap (fetchPRData w prUrl) (\<lambda>prData.
     switchMap (loadContext w) (\<lambda>context.
     switchMap (performAIAnalysis w prData context) (\<lambda>aiResult.
     switchMap (generateTestCases w prData aiResult) (\<lambda>tests.
     formatAnalysisResult w prData aiResult tests))))"

definition analyzePullRequest :: "World \<Rightarrow> string \<Rightarrow> AnalysisResult step" where
  "analyzePullRequest w prUrl svc =
     (if svc_githubToken svc = [] then
        (Inl \<lparr>e_code = Some ''MISSING_TOKEN'', e_message = Some ''GitHub token is required''\<rparr>,
         svc)
      else if \<not> isValidPRUrl prUrl then
        (Inl \<lparr>e_code = Some ''INVALID_URL'', e_message = Some ''Invalid GitHub PR URL''\<rparr>, svc)
      else
        catchError_failed w (analysis_pipe w prUrl)
          (updateStatus Analyzing 0 (Some ''Fetching PR data...'') None svc))"

subsection \<open>Status sequences\<close>

definition status_of :: "AnalysisPhase \<Rightarrow> int \<Rightarrow> string \<Rightarrow> AnalysisStatus" where
  "status_of phase progress label =
     \<lparr>as_status = phase, as_progress = progress, as_currentStep = Some label,
      as_error = None\<rparr>"

text \<open>The statuses a run that succeeds publishes, in order.\<close>

definition success_sequence :: "AnalysisStatus list" where
  "success_sequence =
     [status_of Analyzing 0 ''Fetching PR data...'',
      status_of Analyzing 10 ''Fetching PR data...'',
      status_of Analyzing 30 ''Loading coding standards...'',
      status_of Analyzing 50 ''Analyzing code with AI...'',
      status_of Analyzing 75 ''Generating test cases...'',
      status_of Completed 100 ''Analysis complete'']"

text \<open>
  The sequence in the words of the specification: \<open>pending\<close>, then \<open>analyzing\<close> at 10, 30, 50
  and 75, then \<open>completed\<close> at 100, as phases with their progress. \<open>pending\<close> is the value
  the signal is created with, whose progress is 0.
\<close>

definition spec_sequence :: "(AnalysisPhase \<times> int) list" where
  "spec_sequence =
     [(Pending, 0), (Analyzing, 10), (Analyzing, 30), (Analyzing, 50), (Analyzing, 75),
      (Completed, 100)]"

definition phase_progress :: "AnalysisStatus \<Rightarrow> AnalysisPhase \<times> int" where
  "phase_progress st = (as_status st, as_progress st)"

text \<open>The statuses a run published: what it appended to the record of the signal.\<close>

definition published_by ::
  "AnalysisService \<Rightarrow> AnalysisService \<Rightarrow> AnalysisStatus list" where
  "published_by before after = drop (length (svc_published before)) (svc_published after)"

subsection \<open>Well-shaped provider output\<close>



section \<open>Concrete inputs\<close>

text \<open>
  Builders for concrete files and pull requests, and the concrete values and worlds the
  examples of the properties run on.
\<close>

definition mk_file :: "string \<Rightarrow> string \<Rightarrow> int \<Rightarrow> string option \<Rightarrow> GitHubFile" where
  "mk_file name st n p =
     \<lparr>gf_filename = name, gf_status = st, gf_additions = n, gf_deletions = 0,
      gf_changes = n, gf_patch = p, gf_previousFilename = None\<rparr>"

definition mk_pr :: "GitHubFile list \<Rightarrow> GitHubPullRequest" where
  "mk_pr fs =
     \<lparr>pr_id = 1, pr_number = 42, pr_title = ''Add index'', pr_description = [],
      pr_state = ''open'', pr_author = ''dev'', pr_createdAt = [], pr_updatedAt = [],
      pr_filesChanged = int (length fs), pr_additions = 0, pr_deletions = 0,
      pr_repository = \<lparr>repo_owner = ''acme'', repo_name = ''widgets'',
                        repo_fullName = ''acme/widgets''\<rparr>,
      pr_files = fs, pr_commits = []\<rparr>"

definition demo_files :: "GitHubFile list" where
  "demo_files =
     [mk_file ''002_add_index.migration.ts'' ''modified'' 12 (Some ''DROP TABLE users;''),
      mk_file ''README.md'' ''modified'' 3 (Some ''drop everything''),
      mk_file ''db/init.sql'' ''added'' 5 (Some ''CREATE TABLE t;'')]"

definition demo_schemaChanges :: "SchemaChange list" where
  "demo_schemaChanges =
     [\<lparr>sc_type = Migration, sc_action = Modify,
       sc_entity = ''002_add_index.migration.ts'',
       sc_description = ''Database change in 002_add_index.migration.ts'',
       sc_sqlScript = Some ''DROP TABLE users;'', sc_rollbackScript = None,
       sc_breakingChange = True\<rparr>,
      \<lparr>sc_type = Migration, sc_action = Add, sc_entity = ''db/init.sql'',
       sc_description = ''Database change in db/init.sql'',
       sc_sqlScript = Some ''CREATE TABLE t;'', sc_rollbackScript = None,
       sc_breakingChange = False\<rparr>]"

definition demo_files_no_patch :: "GitHubFile list" where
  "demo_files_no_patch =
     [mk_file ''README.md'' ''modified'' 3 None,
      mk_file ''db/schema.png'' ''added'' 0 None]"


definition demo_ai :: AIAnalysisResponse where
  "demo_ai =
     \<lparr>ai_suggestions =
        JArr [JObj [(''file'', JStr ''a.ts''), (''line'', JNum 1), (''message'', JStr ''x'')]],
      ai_security = JArr [], ai_performance = JArr [], ai_recommendations = JArr [],
      ai_tests = JArr []\<rparr>"


definition demo_error :: js_error where
  "demo_error = \<lparr>e_code = Some ''RATE_LIMIT'', e_message = Some ''Rate Limit Exceeded''\<rparr>"

definition not_found_error :: js_error where
  "not_found_error = \<lparr>e_code = None, e_message = Some ''Pull request not found''\<rparr>"

text \<open>A world in which every collaborator answers.\<close>

definition demo_world :: World where
  "demo_world =
     \<lparr>w_fetchPullRequest = (\<lambda>url token. Inr (mk_pr [])),
      w_fetchPRFiles = (\<lambda>owner repo n token. Inr demo_files),
      w_fetchPRCommits = (\<lambda>owner repo n token. Inr []),
      w_loadModelRepoContext = (\<lambda>url token.
         Inr \<lparr>ctx_codingStandards = ''std'', ctx_architecturePatterns = [],
              ctx_testingGuidelines = []\<rparr>),
      w_analyzePR = (\<lambda>request. Inr demo_ai),
      w_generateTests = (\<lambda>diff context.
         Inr (JObj [(''scenarios'', JArr [JObj [(''title'', JStr ''t''), (''expected'', JStr ''ok'')]])])),
      w_now = ''2025-11-26T10:00:00.000Z'',
      w_generateId = ''analysis-1-abc''\<rparr>"

text \<open>The same world with a failing test generator, and with a pull request that is not found.\<close>

definition demo_world_no_tests :: World where
  "demo_world_no_tests = demo_world\<lparr>w_generateTests := (\<lambda>diff context. Inl demo_error)\<rparr>"

definition demo_world_not_found :: World where
  "demo_world_not_found = demo_world\<lparr>w_fetchPullRequest := (\<lambda>url token. Inl not_found_error)\<rparr>"

definition demo_url :: string where
  "demo_url = ''https://github.com/acme/widgets/pull/42''"

definition demo_service :: AnalysisService where
  "demo_service = setGitHubToken ''ghp_token'' initial_service"








section \<open>Properties\<close>

subsection \<open>Strings\<close>

lemma str_includes_iff: "str_includes s t \<longleftrightarrow> (\<exists>ps ss. s = ps @ t @ ss)"
proof (induction s)
  case Nil
  then show ?case by auto
next
  case (Cons c cs)
  show ?case
  proof
    assume "str_includes (c # cs) t"
    then consider "prefix t (c # cs)" | "str_includes cs t" by auto
    then show "\<exists>ps ss. c # cs = ps @ t @ ss"
    proof cases
      case 1
      then obtain ss where "c # cs = t @ ss" by (auto simp: prefix_def)
      then have "c # cs = [] @ t @ ss" by simp
      then show ?thesis by blast
    next
      case 2
      with Cons.IH obtain ps ss where "cs = ps @ t @ ss" by blast
      then have "c # cs = (c # ps) @ t @ ss" by simp
      then show ?thesis by blast
    qed
  next
    assume "\<exists>ps ss. c # cs = ps @ t @ ss"
    then obtain ps ss where eq: "c # cs = ps @ t @ ss" by blast
    show "str_includes (c # cs) t"
    proof (cases ps)
      case Nil
      with eq have "prefix t (c # cs)" by (simp add: prefix_def)
      then show ?thesis by simp
    next
      case (Cons p ps')
      with eq have "cs = ps' @ t @ ss" by simp
      with Cons.IH have "str_includes cs t" by blast
      then show ?thesis by simp
    qed
  qed
qed

lemma endsWith_iff: "endsWith s t \<longleftrightarrow> (\<exists>ps. s = ps @ t)"
proof
  assume "endsWith s t"
  then have "length t \<le> length s" and d: "drop (length s - length t) s = t"
    by (simp_all add: endsWith_def)
  have "s = take (length s - length t) s @ drop (length s - length t) s" by simp
  with d show "\<exists>ps. s = ps @ t" by metis
next
  assume "\<exists>ps. s = ps @ t"
  then show "endsWith s t" by (auto simp: endsWith_def)
qed

subsection \<open>Impact classification\<close>

text \<open>
  C6. Impact classification returns major when the changed-line count is strictly greater
  than 500, minor when it is strictly greater than 100 and at most 500, and patch
  otherwise; 100 changed lines classify as patch, 101 as minor, 500 as minor and 501 as
  major.
\<close>

theorem calculateImpact_thresholds:
  "(calculateImpact n = Major \<longleftrightarrow> 500 < n)
   \<and> (calculateImpact n = Minor \<longleftrightarrow> 100 < n \<and> n \<le> 500)
   \<and> (calculateImpact n = Patch \<longleftrightarrow> n \<le> 100)
   \<and> calculateImpact 100 = Patch \<and> calculateImpact 101 = Minor
   \<and> calculateImpact 500 = Minor \<and> calculateImpact 501 = Major"
  by (simp add: calculateImpact_def)

theorem calculateImpact_thresholds_witness:
  "calculateImpact 250 = Minor \<and> calculateImpact 7 = Patch \<and> calculateImpact 9000 = Major"
  using calculateImpact_thresholds [of 250] calculateImpact_thresholds [of 7]
    calculateImpact_thresholds [of 9000]
  by simp

subsection \<open>Truncation\<close>








subsection \<open>Schema-change detection\<close>

lemma str_includes_sublist: "str_includes s t \<longleftrightarrow> sublist t s"
  by (simp add: str_includes_iff sublist_def)

lemma endsWith_suffix: "endsWith s t \<longleftrightarrow> suffix t s"
  by (simp add: endsWith_iff suffix_def)

lemma sublist_map_iff:
  "sublist t (map f p) \<longleftrightarrow> (\<exists>u. sublist u p \<and> map f u = t)"
proof
  assume "sublist t (map f p)"
  then obtain ps ss where "map f p = ps @ (t @ ss)" by (auto simp: sublist_def)
  then have "\<exists>us vs. p = us @ vs \<and> ps = map f us \<and> t @ ss = map f vs"
    by (simp only: map_eq_append_conv)
  then obtain us vs where p: "p = us @ vs" and vs: "map f vs = t @ ss"
    by metis
  from vs have "\<exists>u ws. vs = u @ ws \<and> t = map f u \<and> ss = map f ws"
    by (simp only: map_eq_append_conv)
  then obtain u ws where v: "vs = u @ ws" and u: "map f u = t"
    by metis
  from p v have "p = us @ u @ ws" by simp
  then have "sublist u p" unfolding sublist_def by blast
  with u show "\<exists>u. sublist u p \<and> map f u = t" by blast
next
  assume "\<exists>u. sublist u p \<and> map f u = t"
  then obtain u ps ss where "p = ps @ u @ ss" and "map f u = t" by (auto simp: sublist_def)
  then have "map f p = map f ps @ t @ map f ss" by simp
  then show "sublist t (map f p)" unfolding sublist_def by blast
qed

lemma breaking_iff: "str_includes (toLowerCase patch) ''drop'' \<longleftrightarrow> spec_breaking patch"
  by (simp add: str_includes_sublist toLowerCase_def sublist_map_iff spec_breaking_def)

lemma flagged_iff:
  "(str_includes (gf_filename f) ''migration'' \<or> str_includes (gf_filename f) ''schema''
     \<or> endsWith (gf_filename f) ''.sql'') \<longleftrightarrow> spec_flagged f"
  by (simp only: spec_flagged_def str_includes_sublist endsWith_suffix)

lemma loop_step_skip:
  "\<not> spec_flagged f \<Longrightarrow> detectSchemaChanges_loop (f # fs) acc = detectSchemaChanges_loop fs acc"
  by (simp only: detectSchemaChanges_loop.simps flagged_iff if_False)

lemma loop_step_throw:
  "spec_flagged f \<Longrightarrow> gf_patch f = None \<Longrightarrow> detectSchemaChanges_loop (f # fs) acc = Inl TypeError"
  by (simp only: detectSchemaChanges_loop.simps flagged_iff if_True option.case)

lemma loop_step_push:
  "spec_flagged f \<Longrightarrow> gf_patch f = Some p \<Longrightarrow>
   detectSchemaChanges_loop (f # fs) acc = detectSchemaChanges_loop fs (acc @ [schemaChangeOf f])"
  by (simp only: detectSchemaChanges_loop.simps flagged_iff if_True option.case
      schemaChangeOf_def spec_action_def breaking_iff option.sel)

lemma loop_char:
  "detectSchemaChanges_loop fs acc =
     (if \<exists>f\<in>set fs. spec_flagged f \<and> gf_patch f = None then Inl TypeError
      else Inr (acc @ map schemaChangeOf (filter spec_flagged fs)))"
proof (induction fs arbitrary: acc)
  case Nil
  then show ?case by simp
next
  case (Cons f fs)
  show ?case
  proof (cases "spec_flagged f")
    case False
    then show ?thesis
      by (simp add: loop_step_skip Cons.IH del: detectSchemaChanges_loop.simps)
  next
    case True
    show ?thesis
    proof (cases "gf_patch f")
      case None
      with True show ?thesis
        by (auto simp add: loop_step_throw simp del: detectSchemaChanges_loop.simps)
    next
      case (Some p)
      with True show ?thesis
        by (simp add: loop_step_push Cons.IH del: detectSchemaChanges_loop.simps)
    qed
  qed
qed

lemma detect_char:
  "detectSchemaChanges pr =
     (if \<exists>f\<in>set (pr_files pr). spec_flagged f \<and> gf_patch f = None then Inl TypeError
      else Inr (map schemaChangeOf (filter spec_flagged (pr_files pr))))"
  by (simp add: detectSchemaChanges_def loop_char)

lemma example_migration_flagged:
  "gf_filename f = ''002_add_index.migration.ts'' \<Longrightarrow> spec_flagged f"
  by (simp add: spec_flagged_def str_includes_sublist [symmetric])

lemma example_readme_not_flagged:
  "gf_filename f = ''README.md'' \<Longrightarrow> \<not> spec_flagged f"
  by (simp add: spec_flagged_def str_includes_sublist [symmetric] endsWith_suffix [symmetric]
      endsWith_def)

lemma drop_table_breaking:
  assumes "sublist ''DROP TABLE'' p"
  shows "spec_breaking p"
proof -
  have "sublist ''DROP'' (''DROP'' @ '' TABLE'')" by (rule sublist_append_rightI)
  then have "sublist ''DROP'' ''DROP TABLE''" by simp
  from this assms have "sublist ''DROP'' p" by (rule sublist_order.order.trans)
  moreover have "toLowerCase ''DROP'' = ''drop''"
    by (simp add: toLowerCase_def lower_char_def char_of_def bit_Suc_0_iff)
  ultimately show ?thesis unfolding spec_breaking_def by blast
qed

lemmas js_string_eval = toLowerCase_def lower_char_def char_of_def bit_Suc_0_iff
  digit_char_def show_nat.simps show_int_def endsWith_def

lemma demo_detect: "detectSchemaChanges (mk_pr demo_files) = Inr demo_schemaChanges"
  by (simp add: detectSchemaChanges_def mk_pr_def mk_file_def demo_files_def
      demo_schemaChanges_def js_string_eval)

text \<open>
  C4. Schema-change detection flags a file if and only if its filename contains
  \<open>migration\<close> or \<open>schema\<close> (case-sensitive) or ends with \<open>.sql\<close>; a flagged file's action
  is \<open>add\<close> exactly when its status is \<open>added\<close> and \<open>modify\<close> otherwise, and its
  \<open>breakingChange\<close> is true exactly when its patch contains \<open>drop\<close> in any letter case.
  A file named \<open>002_add_index.migration.ts\<close> with status \<open>modified\<close> and a patch containing
  \<open>DROP TABLE\<close> yields action \<open>modify\<close> and \<open>breakingChange\<close> true; a file named \<open>README.md\<close>
  is never flagged, whatever its patch.
\<close>

theorem detectSchemaChanges_heuristic:
  "(detectSchemaChanges pr = Inr scs \<longrightarrow>
      scs = map schemaChangeOf (filter spec_flagged (pr_files pr))
      \<and> (\<forall>f\<in>set (pr_files pr). spec_flagged f \<longrightarrow> gf_patch f \<noteq> None)
      \<and> (\<forall>f\<in>set (pr_files pr). gf_filename f \<in> sc_entity ` set scs \<longleftrightarrow> spec_flagged f))
   \<and> (gf_filename f = ''002_add_index.migration.ts'' \<and> gf_status f = ''modified''
        \<and> gf_patch f = Some p \<and> sublist ''DROP TABLE'' p \<longrightarrow>
        (\<exists>sc. detectSchemaChanges (pr\<lparr>pr_files := [f]\<rparr>) = Inr [sc]
           \<and> sc_action sc = Modify \<and> sc_breakingChange sc))
   \<and> (gf_filename g = ''README.md'' \<longrightarrow> detectSchemaChanges (pr\<lparr>pr_files := [g]\<rparr>) = Inr [])"
proof (intro conjI impI)
  assume ok: "detectSchemaChanges pr = Inr scs"
  then have nothrow: "\<not> (\<exists>f\<in>set (pr_files pr). spec_flagged f \<and> gf_patch f = None)"
    by (auto simp: detect_char split: if_splits)
  with ok show scs: "scs = map schemaChangeOf (filter spec_flagged (pr_files pr))"
    by (simp add: detect_char)
  from nothrow show "\<forall>f\<in>set (pr_files pr). spec_flagged f \<longrightarrow> gf_patch f \<noteq> None"
    by auto
  have ent: "sc_entity ` set scs = gf_filename ` {f \<in> set (pr_files pr). spec_flagged f}"
    unfolding scs by (auto simp: schemaChangeOf_def image_iff)
  have same: "\<And>f f'. gf_filename f = gf_filename f' \<Longrightarrow> spec_flagged f = spec_flagged f'"
    by (simp add: spec_flagged_def)
  show "\<forall>f\<in>set (pr_files pr). gf_filename f \<in> sc_entity ` set scs \<longleftrightarrow> spec_flagged f"
    unfolding ent using same by blast
next
  assume a: "gf_filename f = ''002_add_index.migration.ts'' \<and> gf_status f = ''modified''
        \<and> gf_patch f = Some p \<and> sublist ''DROP TABLE'' p"
  then have fl: "spec_flagged f" by (simp add: example_migration_flagged)
  from a have br: "spec_breaking p" by (simp add: drop_table_breaking)
  from a fl have "detectSchemaChanges (pr\<lparr>pr_files := [f]\<rparr>) = Inr [schemaChangeOf f]"
    by (simp add: detect_char)
  moreover from a br have "sc_action (schemaChangeOf f) = Modify"
    and "sc_breakingChange (schemaChangeOf f)"
    by (simp_all add: schemaChangeOf_def spec_action_def)
  ultimately show "\<exists>sc. detectSchemaChanges (pr\<lparr>pr_files := [f]\<rparr>) = Inr [sc]
           \<and> sc_action sc = Modify \<and> sc_breakingChange sc"
    by blast
next
  assume "gf_filename g = ''README.md''"
  then have "\<not> spec_flagged g" by (rule example_readme_not_flagged)
  then show "detectSchemaChanges (pr\<lparr>pr_files := [g]\<rparr>) = Inr []"
    by (simp add: detect_char)
qed

theorem detectSchemaChanges_heuristic_witness:
  "detectSchemaChanges (mk_pr demo_files) = Inr demo_schemaChanges
   \<and> demo_schemaChanges = map schemaChangeOf (filter spec_flagged (pr_files (mk_pr demo_files)))
   \<and> (\<exists>sc. detectSchemaChanges (mk_pr demo_files\<lparr>pr_files := [demo_files ! 0]\<rparr>) = Inr [sc]
         \<and> sc_action sc = Modify \<and> sc_breakingChange sc)
   \<and> detectSchemaChanges (mk_pr demo_files\<lparr>pr_files := [demo_files ! 1]\<rparr>) = Inr []"
proof -
  have f: "gf_filename (demo_files ! 0) = ''002_add_index.migration.ts''
      \<and> gf_status (demo_files ! 0) = ''modified''
      \<and> gf_patch (demo_files ! 0) = Some ''DROP TABLE users;''"
    by (simp add: demo_files_def mk_file_def)
  have "sublist ''DROP TABLE'' (''DROP TABLE'' @ '' users;'')"
    by (rule sublist_append_rightI)
  then have p: "sublist ''DROP TABLE'' ''DROP TABLE users;''" by simp
  have g: "gf_filename (demo_files ! 1) = ''README.md''"
    by (simp add: demo_files_def mk_file_def)
  show ?thesis
    using detectSchemaChanges_heuristic
      [of "mk_pr demo_files" demo_schemaChanges "demo_files ! 0" "''DROP TABLE users;''"
        "demo_files ! 1"]
      demo_detect f p g
    by blast
qed

text \<open>
  C9. Schema-change detection returns a result only if every file whose filename matches
  the heuristic carries a patch string: on a file list with a matching file that has no
  patch text, \<open>detectSchemaChanges\<close> fails with a \<open>TypeError\<close> instead of returning.
\<close>

theorem detectSchemaChanges_needs_patch:
  "((\<exists>scs. detectSchemaChanges pr = Inr scs)
      \<longleftrightarrow> (\<forall>f\<in>set (pr_files pr). spec_flagged f \<longrightarrow> gf_patch f \<noteq> None))
   \<and> ((\<exists>f\<in>set (pr_files pr). spec_flagged f \<and> gf_patch f = None)
        \<longrightarrow> detectSchemaChanges pr = Inl TypeError)"
  by (auto simp: detect_char)

theorem detectSchemaChanges_needs_patch_witness:
  "spec_flagged (demo_files_no_patch ! 1) \<and> gf_patch (demo_files_no_patch ! 1) = None
   \<and> detectSchemaChanges (mk_pr demo_files_no_patch) = Inl TypeError
   \<and> (\<nexists>scs. detectSchemaChanges (mk_pr demo_files_no_patch) = Inr scs)"
proof -
  have fl: "spec_flagged (demo_files_no_patch ! 1)"
    by (simp add: flagged_iff [symmetric] demo_files_no_patch_def mk_file_def)
  have np: "gf_patch (demo_files_no_patch ! 1) = None"
    by (simp add: demo_files_no_patch_def mk_file_def)
  have mem: "demo_files_no_patch ! 1 \<in> set (pr_files (mk_pr demo_files_no_patch))"
    by (simp add: demo_files_no_patch_def mk_pr_def)
  note inst = detectSchemaChanges_needs_patch [of "mk_pr demo_files_no_patch"]
  from fl np mem inst have "detectSchemaChanges (mk_pr demo_files_no_patch) = Inl TypeError"
    by blast
  moreover from fl np mem inst
  have "\<nexists>scs. detectSchemaChanges (mk_pr demo_files_no_patch) = Inr scs"
    by blast
  ultimately show ?thesis using fl np by blast
qed

text \<open>
  C10. Every \<open>SchemaChange\<close> produced by schema-change detection has type \<open>migration\<close>,
  whichever of the three tests the file matched; \<open>table\<close>, \<open>column\<close>, \<open>index\<close> and
  \<open>constraint\<close> are never produced.
\<close>

theorem detectSchemaChanges_type_migration:
  "detectSchemaChanges pr = Inr scs \<Longrightarrow> \<forall>sc\<in>set scs. sc_type sc = Migration"
  by (auto simp: detect_char schemaChangeOf_def split: if_splits)

theorem detectSchemaChanges_type_migration_witness:
  "detectSchemaChanges (mk_pr demo_files) = Inr demo_schemaChanges
   \<and> map sc_type demo_schemaChanges = [Migration, Migration]"
proof -
  have "\<forall>sc\<in>set demo_schemaChanges. sc_type sc = Migration"
    using demo_detect by (rule detectSchemaChanges_type_migration)
  then have "map sc_type demo_schemaChanges = [Migration, Migration]"
    by (simp add: demo_schemaChanges_def)
  with demo_detect show ?thesis by blast
qed

subsection \<open>Defaulting of the AI response\<close>



















subsection \<open>The status signal along the pipeline\<close>

lemma updateStatus_published:
  "svc_published (updateStatus ph p (Some l) None svc) = svc_published svc @ [status_of ph p l]"
  by (simp add: updateStatus_def status_of_def Let_def)

lemma updateStatus_fields:
  "svc_githubToken (updateStatus ph p l e svc) = svc_githubToken svc"
  "svc_modelRepoUrl (updateStatus ph p l e svc) = svc_modelRepoUrl svc"
  "svc_status (updateStatus ph p l e svc) =
     \<lparr>as_status = ph, as_progress = p, as_currentStep = l, as_error = e\<rparr>"
  by (simp_all add: updateStatus_def Let_def)

lemma updateStatus_last:
  "svc_status (updateStatus ph p l e svc) = last (svc_published (updateStatus ph p l e svc))"
  by (simp add: updateStatus_def Let_def)

lemma fetchPRData_state:
  "fetchPRData w prUrl svc = (r, svc') \<Longrightarrow>
   svc' = updateStatus Analyzing 10 (Some ''Fetching PR data...'') None svc"
  by (auto simp: fetchPRData_def Let_def split: option.splits sum.splits prod.splits)

lemma loadContext_state:
  "loadContext w svc = (r, svc') \<Longrightarrow>
   svc' = updateStatus Analyzing 30 (Some ''Loading coding standards...'') None svc"
  by (auto simp: loadContext_def Let_def split: if_splits)

lemma performAIAnalysis_state:
  "performAIAnalysis w prData context svc = (r, svc') \<Longrightarrow>
   svc' = updateStatus Analyzing 50 (Some ''Analyzing code with AI...'') None svc"
  by (auto simp: performAIAnalysis_def Let_def)

lemma generateTestCases_state:
  "generateTestCases w prData aiResult svc = (r, svc') \<Longrightarrow>
   svc' = updateStatus Analyzing 75 (Some ''Generating test cases...'') None svc"
  by (auto simp: generateTestCases_def Let_def)

lemma generateTestCases_absorbs: "\<exists>tests. fst (generateTestCases w prData aiResult svc) = Inr tests"
  by (auto simp: generateTestCases_def Let_def split: sum.splits)

lemma formatAnalysisResult_state:
  "formatAnalysisResult w prData aiResult tests svc = (r, svc') \<Longrightarrow>
   svc' = updateStatus Completed 100 (Some ''Analysis complete'') None svc"
  by (auto simp: formatAnalysisResult_def Let_def)

text \<open>What the pipe publishes, from a state \<open>svc\<close>: a prefix of the five statuses after the reset.\<close>

lemma analysis_pipe_trace:
  assumes "analysis_pipe w prUrl svc = (r, svc')"
  shows "\<exists>n. 1 \<le> n \<and> n \<le> 5 \<and> svc_published svc' = svc_published svc @ take n (tl success_sequence)
           \<and> ((\<exists>res. r = Inr res) \<longrightarrow> n = 5)
           \<and> svc_githubToken svc' = svc_githubToken svc
           \<and> svc_modelRepoUrl svc' = svc_modelRepoUrl svc
           \<and> svc_status svc' = last (svc_published svc')"
proof -
  let ?S = "tl success_sequence"
  obtain r1 s1 where f: "fetchPRData w prUrl svc = (r1, s1)" by (cases "fetchPRData w prUrl svc")
  note st1 = fetchPRData_state [OF f]
  have l1: "svc_status s1 = last (svc_published s1)"
    unfolding st1 by (rule updateStatus_last)
  have p1: "svc_published s1 = svc_published svc @ take 1 ?S"
    by (simp add: st1 updateStatus_published success_sequence_def)
  show ?thesis
  proof (cases r1)
    case (Inl e)
    with assms f have "r = Inl e" "svc' = s1"
      by (simp_all add: analysis_pipe_def switchMap_def)
    with p1 l1 st1 show ?thesis
          by (intro exI [of _ 1]) (simp add: updateStatus_fields)
  next
    case (Inr prData)
    obtain r2 s2 where l: "loadContext w s1 = (r2, s2)" by (cases "loadContext w s1")
    note st2 = loadContext_state [OF l]
  have l2: "svc_status s2 = last (svc_published s2)"
    unfolding st2 by (rule updateStatus_last)
    have p2: "svc_published s2 = svc_published svc @ take 2 ?S"
      by (simp add: st2 st1 updateStatus_published success_sequence_def)
    show ?thesis
    proof (cases r2)
      case (Inl e)
      with assms f l \<open>r1 = Inr prData\<close> have "r = Inl e" "svc' = s2"
        by (simp_all add: analysis_pipe_def switchMap_def)
      with p2 l2 st2 st1 show ?thesis
          by (intro exI [of _ 2]) (simp add: updateStatus_fields)
    next
      case (Inr ctx)
      note r2 = this
      obtain r3 s3 where a: "performAIAnalysis w prData ctx s2 = (r3, s3)"
        by (cases "performAIAnalysis w prData ctx s2")
      note st3 = performAIAnalysis_state [OF a]
  have l3: "svc_status s3 = last (svc_published s3)"
    unfolding st3 by (rule updateStatus_last)
      have p3: "svc_published s3 = svc_published svc @ take 3 ?S"
        by (simp add: st3 st2 st1 updateStatus_published success_sequence_def)
      show ?thesis
      proof (cases r3)
        case (Inl e)
        with assms f l a \<open>r1 = Inr prData\<close> r2 have "r = Inl e" "svc' = s3"
          by (simp_all add: analysis_pipe_def switchMap_def)
        with p3 l3 st3 st2 st1 show ?thesis
          by (intro exI [of _ 3]) (simp add: updateStatus_fields)
      next
        case (Inr aiResult)
        note r3 = this
        obtain r4 s4 where g: "generateTestCases w prData aiResult s3 = (r4, s4)"
          by (cases "generateTestCases w prData aiResult s3")
        note st4 = generateTestCases_state [OF g]
        from generateTestCases_absorbs [of w prData aiResult s3] g
        obtain tests where r4: "r4 = Inr tests" by auto
        obtain r5 s5 where fm: "formatAnalysisResult w prData aiResult tests s4 = (r5, s5)"
          by (cases "formatAnalysisResult w prData aiResult tests s4")
        note st5 = formatAnalysisResult_state [OF fm]
  have l5: "svc_status s5 = last (svc_published s5)"
    unfolding st5 by (rule updateStatus_last)
        have p5: "svc_published s5 = svc_published svc @ take 5 ?S"
          by (simp add: st5 st4 st3 st2 st1 updateStatus_published success_sequence_def)
        from assms f l a g fm \<open>r1 = Inr prData\<close> r2 r3 r4 have "r = r5" "svc' = s5"
          by (simp_all add: analysis_pipe_def switchMap_def)
        with p5 l5 st5 st4 st3 st2 st1 show ?thesis
          by (intro exI [of _ 5]) (simp add: updateStatus_fields)
      qed
    qed
  qed
qed

lemma published_by_append:
  "svc_published after = svc_published before @ new \<Longrightarrow> published_by before after = new"
  by (simp add: published_by_def)

lemma analyze_proper_run:
  assumes "svc_githubToken svc \<noteq> []" and "isValidPRUrl prUrl"
  shows "analyzePullRequest w prUrl svc =
     catchError_failed w (analysis_pipe w prUrl)
       (updateStatus Analyzing 0 (Some ''Fetching PR data...'') None svc)"
  using assms by (simp add: analyzePullRequest_def)

lemma analyze_Inr_proper:
  assumes "analyzePullRequest w prUrl svc = (Inr result, svc')"
  shows "svc_githubToken svc \<noteq> [] \<and> isValidPRUrl prUrl"
  using assms by (auto simp: analyzePullRequest_def split: if_splits)

lemma catchError_failed_Inr:
  "catchError_failed w src svc = (Inr x, svc') \<longleftrightarrow> src svc = (Inr x, svc')"
  by (auto simp: catchError_failed_def split: prod.splits sum.splits)

lemma success_sequence_unfold:
  "success_sequence = status_of Analyzing 0 ''Fetching PR data...'' # tl success_sequence"
  by (simp add: success_sequence_def)

lemma length_tl_success_sequence: "length (tl success_sequence) = 5"
  by (simp add: success_sequence_def)

lemmas pipeline_eval = analyzePullRequest_def analysis_pipe_def catchError_failed_def switchMap_def
  fetchPRData_def loadContext_def performAIAnalysis_def generateTestCases_def
  formatAnalysisResult_def updateStatus_def forkJoin3_def isValidPRUrl_def match_pr_at_def
  is_digit_def parse_digits_def Let_def bindE_def generateSummary_def count_critical_def
  mapSuggestions_def mapSecurityIssues_def mapPerformanceIssues_def mapTestScenarios_def
  mapTestCases_def mapRecommendations_def array_map_def mapSuggestion_def mapSecurityIssue_def
  mapPerformanceIssue_def mapTestScenario_def mapTestCase_def mapRecommendation_def
  nullish_def js_or_def detectSchemaChanges_def mapCodeChanges_def detectChangeType_def
  calculateImpact_def buildDiff_def or_default_def published_by_def
  setGitHubToken_def initial_service_def

lemmas demo_eval = demo_world_def demo_world_no_tests_def demo_world_not_found_def demo_url_def
  demo_service_def demo_files_def demo_ai_def mk_pr_def mk_file_def demo_error_def
  not_found_error_def

lemma demo_run_ok: "\<not> isl (fst (analyzePullRequest demo_world demo_url demo_service))"
  by (simp add: pipeline_eval demo_eval js_string_eval)

lemma demo_run_published:
  "map phase_progress
     (published_by demo_service (snd (analyzePullRequest demo_world demo_url demo_service)))
   = [(Analyzing, 0), (Analyzing, 10), (Analyzing, 30), (Analyzing, 50), (Analyzing, 75),
      (Completed, 100)]"
  by (simp add: pipeline_eval demo_eval js_string_eval phase_progress_def)

lemma demo_not_found_published:
  "map phase_progress
     (published_by demo_service
        (snd (analyzePullRequest demo_world_not_found demo_url demo_service)))
   = [(Analyzing, 0), (Analyzing, 10), (Failed, 0)]"
  by (simp add: pipeline_eval demo_eval js_string_eval phase_progress_def)

subsection \<open>The status sequence of a successful run\<close>

lemma successful_run_published:
  assumes run: "analyzePullRequest w prUrl svc = (Inr result, svc')"
  shows "svc_published svc' = svc_published svc @ success_sequence"
    and "svc_status svc' = last (svc_published svc')"
proof -
  let ?s0 = "updateStatus Analyzing 0 (Some ''Fetching PR data...'') None svc"
  from analyze_Inr_proper [OF run] run
  have "catchError_failed w (analysis_pipe w prUrl) ?s0 = (Inr result, svc')"
    by (simp add: analyze_proper_run)
  then have pipe: "analysis_pipe w prUrl ?s0 = (Inr result, svc')"
    by (simp only: catchError_failed_Inr)
  from analysis_pipe_trace [OF pipe]
  have pub: "svc_published svc' = svc_published ?s0 @ take 5 (tl success_sequence)"
    and last: "svc_status svc' = last (svc_published svc')"
    by auto
  have "svc_published ?s0 = svc_published svc @ [status_of Analyzing 0 ''Fetching PR data...'']"
    by (rule updateStatus_published)
  with pub show "svc_published svc' = svc_published svc @ success_sequence"
    using success_sequence_unfold length_tl_success_sequence by simp
  from last show "svc_status svc' = last (svc_published svc')" .
qed

lemma successful_run_status:
  assumes run: "analyzePullRequest w prUrl svc = (Inr result, svc')"
  shows "published_by svc svc' = success_sequence"
    and "svc_status svc' = status_of Completed 100 ''Analysis complete''"
    and "list_all (\<lambda>st. as_status st \<noteq> Failed) (published_by svc svc')"
proof -
  note pub = successful_run_published(1) [OF run]
  show p: "published_by svc svc' = success_sequence"
    using pub by (rule published_by_append)
  have "last (svc_published svc @ success_sequence) = status_of Completed 100 ''Analysis complete''"
    by (simp add: success_sequence_def)
  with successful_run_published(2) [OF run] pub
  show "svc_status svc' = status_of Completed 100 ''Analysis complete''" by simp
  show "list_all (\<lambda>st. as_status st \<noteq> Failed) (published_by svc svc')"
    unfolding p by (simp add: success_sequence_def status_of_def)
qed

text \<open>
  C1. A run of \<open>analyzePullRequest\<close> that succeeds publishes exactly these statuses, in
  this order and with nothing in between: \<open>analyzing\<close> with progress 0 (the reset at the
  start of the run), \<open>analyzing\<close> 10 (fetch PR data), \<open>analyzing\<close> 30 (load context),
  \<open>analyzing\<close> 50 (AI review), \<open>analyzing\<close> 75 (test generation) and \<open>completed\<close> with
  progress 100. The run does not publish \<open>pending\<close>: that is the value the signal holds
  before its first run. The sequence of the specification, \<^const>\<open>spec_sequence\<close>, starts
  with \<open>pending\<close> and has no status with progress 0 after it; the example run that follows
  the theorem differs from it, with and without the signal's initial value in front.
\<close>

theorem success_status_sequence:
  "analyzePullRequest w prUrl svc = (Inr result, svc') \<Longrightarrow>
   published_by svc svc' = success_sequence
   \<and> svc_published svc' = svc_published svc @ success_sequence
   \<and> svc_status svc' = status_of Completed 100 ''Analysis complete''"
proof -
  assume run: "analyzePullRequest w prUrl svc = (Inr result, svc')"
  from run have "published_by svc svc' = success_sequence"
    by (rule successful_run_status(1))
  moreover from run have "svc_published svc' = svc_published svc @ success_sequence"
    by (rule successful_run_published(1))
  moreover from run have "svc_status svc' = status_of Completed 100 ''Analysis complete''"
    by (rule successful_run_status(2))
  ultimately show ?thesis by blast
qed

theorem success_status_sequence_witness:
  "\<not> isl (fst (analyzePullRequest demo_world demo_url demo_service))
   \<and> published_by demo_service (snd (analyzePullRequest demo_world demo_url demo_service))
      = success_sequence
   \<and> svc_status (snd (analyzePullRequest demo_world demo_url demo_service))
      = status_of Completed 100 ''Analysis complete''"
proof -
  obtain r s where run: "analyzePullRequest demo_world demo_url demo_service = (r, s)"
    by (cases "analyzePullRequest demo_world demo_url demo_service")
  with demo_run_ok obtain result where "r = Inr result" by (cases r) simp_all
  with run have "analyzePullRequest demo_world demo_url demo_service = (Inr result, s)" by simp
  from success_status_sequence [OF this] run demo_run_ok show ?thesis by simp
qed

theorem success_status_sequence_counterexample:
  "\<not> isl (fst (analyzePullRequest demo_world demo_url demo_service))
   \<and> map phase_progress
        (published_by demo_service (snd (analyzePullRequest demo_world demo_url demo_service)))
      = [(Analyzing, 0), (Analyzing, 10), (Analyzing, 30), (Analyzing, 50), (Analyzing, 75),
         (Completed, 100)]
   \<and> map phase_progress
        (published_by demo_service (snd (analyzePullRequest demo_world demo_url demo_service)))
      \<noteq> spec_sequence
   \<and> map phase_progress
        (svc_status demo_service
         # published_by demo_service (snd (analyzePullRequest demo_world demo_url demo_service)))
      \<noteq> spec_sequence"
  using demo_run_ok demo_run_published
  by (simp add: spec_sequence_def)

subsection \<open>Validation failures\<close>

text \<open>
  C3. A call of \<open>analyzePullRequest\<close> with a missing GitHub token, or with a PR URL that
  does not match the locator pattern, fails at once with the error code \<open>MISSING_TOKEN\<close>,
  respectively \<open>INVALID_URL\<close>, delivered as the error of the returned observable (the
  token is checked first). No collaborator is consulted: the outcome is the same in every
  world. The status signal is not written, so the status does not become \<open>failed\<close>: the
  service state is returned unchanged, as the two example calls after the theorem show.
\<close>

theorem validation_failure:
  "(svc_githubToken svc = [] \<longrightarrow>
      analyzePullRequest w prUrl svc =
        (Inl \<lparr>e_code = Some ''MISSING_TOKEN'', e_message = Some ''GitHub token is required''\<rparr>,
         svc))
   \<and> (svc_githubToken svc \<noteq> [] \<and> \<not> isValidPRUrl prUrl \<longrightarrow>
      analyzePullRequest w prUrl svc =
        (Inl \<lparr>e_code = Some ''INVALID_URL'', e_message = Some ''Invalid GitHub PR URL''\<rparr>, svc))
   \<and> (svc_githubToken svc = [] \<or> \<not> isValidPRUrl prUrl \<longrightarrow>
      analyzePullRequest w prUrl svc = analyzePullRequest w' prUrl svc
      \<and> snd (analyzePullRequest w prUrl svc) = svc
      \<and> published_by svc (snd (analyzePullRequest w prUrl svc)) = [])"
  by (simp add: analyzePullRequest_def published_by_def)

theorem validation_failure_witness:
  "svc_githubToken initial_service = []
   \<and> analyzePullRequest demo_world demo_url initial_service
      = (Inl \<lparr>e_code = Some ''MISSING_TOKEN'', e_message = Some ''GitHub token is required''\<rparr>,
         initial_service)
   \<and> svc_githubToken demo_service \<noteq> []
   \<and> \<not> isValidPRUrl ''https://github.com/acme/widgets/issues/42''
   \<and> analyzePullRequest demo_world ''https://github.com/acme/widgets/issues/42'' demo_service
      = (Inl \<lparr>e_code = Some ''INVALID_URL'', e_message = Some ''Invalid GitHub PR URL''\<rparr>,
         demo_service)
   \<and> analyzePullRequest demo_world ''https://github.com/acme/widgets/issues/42'' demo_service
      = analyzePullRequest demo_world_not_found ''https://github.com/acme/widgets/issues/42''
          demo_service"
proof -
  have a: "svc_githubToken initial_service = []"
    by (simp add: initial_service_def)
  have b: "svc_githubToken demo_service \<noteq> []"
    by (simp add: demo_service_def setGitHubToken_def initial_service_def)
  have c: "\<not> isValidPRUrl ''https://github.com/acme/widgets/issues/42''"
    by (simp add: isValidPRUrl_def match_pr_at_def Let_def)
  note missing = validation_failure [of initial_service demo_world demo_url demo_world_not_found]
  note invalid = validation_failure
    [of demo_service demo_world "''https://github.com/acme/widgets/issues/42''"
      demo_world_not_found]
  from a b c missing invalid show ?thesis by blast
qed

theorem validation_failure_counterexample:
  "fst (analyzePullRequest demo_world demo_url initial_service)
     = Inl \<lparr>e_code = Some ''MISSING_TOKEN'', e_message = Some ''GitHub token is required''\<rparr>
   \<and> as_status (svc_status (snd (analyzePullRequest demo_world demo_url initial_service)))
      \<noteq> Failed
   \<and> as_error (svc_status (snd (analyzePullRequest demo_world demo_url initial_service))) = None
   \<and> svc_published (snd (analyzePullRequest demo_world demo_url initial_service)) = []
   \<and> fst (analyzePullRequest demo_world ''https://github.com/acme/widgets/issues/42'' demo_service)
     = Inl \<lparr>e_code = Some ''INVALID_URL'', e_message = Some ''Invalid GitHub PR URL''\<rparr>
   \<and> as_status (svc_status (snd (analyzePullRequest demo_world
        ''https://github.com/acme/widgets/issues/42'' demo_service))) \<noteq> Failed
   \<and> as_error (svc_status (snd (analyzePullRequest demo_world
        ''https://github.com/acme/widgets/issues/42'' demo_service))) = None
   \<and> svc_published (snd (analyzePullRequest demo_world
        ''https://github.com/acme/widgets/issues/42'' demo_service)) = []"
  by (simp add: pipeline_eval demo_eval)

subsection \<open>Progress along a run\<close>

lemma sorted_success: "sorted (map as_progress success_sequence)"
  by (simp add: success_sequence_def status_of_def)

lemma prefix_as_take:
  "status_of Analyzing 0 ''Fetching PR data...'' # take n (tl success_sequence)
     = take (Suc n) success_sequence"
  by (simp add: success_sequence_def)

lemma sorted_take_success:
  "sorted (map as_progress (status_of Analyzing 0 ''Fetching PR data...'' # take n (tl success_sequence)))"
  using sorted_success by (simp only: prefix_as_take take_map [symmetric] sorted_wrt_take)

lemma not_failed_take_success:
  "list_all (\<lambda>st. as_status st \<noteq> Failed)
     (status_of Analyzing 0 ''Fetching PR data...'' # take n (tl success_sequence))"
proof -
  have "list_all (\<lambda>st. as_status st \<noteq> Failed) success_sequence"
    by (simp add: success_sequence_def status_of_def)
  then have "list_all (\<lambda>st. as_status st \<noteq> Failed) (take (Suc n) success_sequence)"
    unfolding list_all_iff using set_take_subset by fast
  then show ?thesis by (simp only: prefix_as_take)
qed

text \<open>
  C8. Within a single run, the statuses published before a failure have non-decreasing
  progress, and none of them is \<open>failed\<close>. A run that succeeds publishes only these. A run
  that fails publishes nothing (a validation failure) or ends with one more status,
  \<open>failed\<close> with progress 0; so the progress of a failing run is not monotone over the
  whole run, as the run with a pull request that is not found shows: 0, 10, 0.
\<close>

theorem progress_monotone_until_failure:
  "analyzePullRequest w prUrl svc = (r, svc') \<Longrightarrow>
   (\<exists>pre. sorted (map as_progress pre)
      \<and> list_all (\<lambda>st. as_status st \<noteq> Failed) pre
      \<and> (case r of
            Inr result \<Rightarrow> published_by svc svc' = pre
          | Inl e \<Rightarrow> published_by svc svc' = []
              \<or> (\<exists>f. published_by svc svc' = pre @ [f]
                       \<and> as_status f = Failed \<and> as_progress f = 0)))"
proof -
  assume run: "analyzePullRequest w prUrl svc = (r, svc')"
  show ?thesis
  proof (cases "svc_githubToken svc = [] \<or> \<not> isValidPRUrl prUrl")
    case True
    with run have "svc' = svc" and "\<exists>e. r = Inl e"
      by (auto simp: analyzePullRequest_def split: if_splits)
    then show ?thesis
      by (intro exI [of _ "[]"]) (auto simp: published_by_def)
  next
    case False
    let ?s0 = "updateStatus Analyzing 0 (Some ''Fetching PR data...'') None svc"
    let ?st0 = "status_of Analyzing 0 ''Fetching PR data...''"
    have p0: "svc_published ?s0 = svc_published svc @ [?st0]"
      by (rule updateStatus_published)
    from False run
    have ce: "catchError_failed w (analysis_pipe w prUrl) ?s0 = (r, svc')"
      by (simp add: analyze_proper_run)
    obtain r1 s1 where pipe: "analysis_pipe w prUrl ?s0 = (r1, s1)"
      by (cases "analysis_pipe w prUrl ?s0")
    from analysis_pipe_trace [OF pipe] obtain n
      where pub: "svc_published s1 = svc_published ?s0 @ take n (tl success_sequence)"
      by blast
    let ?pre = "?st0 # take n (tl success_sequence)"
    have pre: "svc_published s1 = svc_published svc @ ?pre"
      using pub p0 by simp
    have sorted: "sorted (map as_progress ?pre)" by (rule sorted_take_success)
    have nf: "list_all (\<lambda>st. as_status st \<noteq> Failed) ?pre"
      by (rule not_failed_take_success)
    show ?thesis
    proof (cases r1)
      case (Inr result)
      with ce pipe have "r = Inr result" "svc' = s1"
        by (simp_all add: catchError_failed_def)
      with pre sorted nf show ?thesis
        by (intro exI [of _ ?pre]) (simp add: published_by_def)
    next
      case (Inl e)
      let ?f = "\<lparr>as_status = Failed, as_progress = 0, as_currentStep = None,
          as_error = Some \<lparr>ae_code = or_default (e_code e) ''ANALYSIS_ERROR'',
                        ae_message = or_default (e_message e) ''Analysis failed'',
                        ae_timestamp = w_now w\<rparr>\<rparr>"
      from Inl ce pipe have r: "r = Inl e"
        and s: "svc' = updateStatus Failed 0 None (as_error ?f) s1"
        by (simp_all add: catchError_failed_def)
      from s pre have "svc_published svc' = svc_published svc @ ?pre @ [?f]"
        by (simp add: updateStatus_def Let_def)
      then have "published_by svc svc' = ?pre @ [?f]"
        by (rule published_by_append)
      with r sorted nf show ?thesis
        by (intro exI [of _ ?pre]) simp
    qed
  qed
qed

theorem progress_monotone_until_failure_witness:
  "\<exists>pre f. published_by demo_service
              (snd (analyzePullRequest demo_world_not_found demo_url demo_service)) = pre @ [f]
      \<and> sorted (map as_progress pre) \<and> as_status f = Failed \<and> as_progress f = 0"
proof -
  let ?run = "analyzePullRequest demo_world_not_found demo_url demo_service"
  let ?new = "published_by demo_service (snd ?run)"
  obtain r s where run: "?run = (r, s)" by (cases ?run)
  have "isl (fst ?run)"
    by (simp add: pipeline_eval demo_eval js_string_eval)
  with run obtain e where r: "r = Inl e" by (cases r) simp_all
  from progress_monotone_until_failure [OF run] r obtain pre
    where sorted: "sorted (map as_progress pre)"
      and nf: "list_all (\<lambda>st. as_status st \<noteq> Failed) pre"
      and alt: "published_by demo_service s = []
        \<or> (\<exists>f. published_by demo_service s = pre @ [f] \<and> as_status f = Failed \<and> as_progress f = 0)"
    by auto
  have "map phase_progress (published_by demo_service s)
      = [(Analyzing, 0), (Analyzing, 10), (Failed, 0)]"
    using demo_not_found_published run by simp
  then have "published_by demo_service s \<noteq> []"
    by auto
  with alt obtain f where "published_by demo_service s = pre @ [f]"
    and "as_status f = Failed" and "as_progress f = 0"
    by auto
  with sorted run show ?thesis by auto
qed

theorem progress_monotone_counterexample:
  "isl (fst (analyzePullRequest demo_world_not_found demo_url demo_service))
   \<and> map as_progress
        (published_by demo_service
           (snd (analyzePullRequest demo_world_not_found demo_url demo_service)))
      = [0, 10, 0]
   \<and> \<not> sorted (map as_progress
        (published_by demo_service
           (snd (analyzePullRequest demo_world_not_found demo_url demo_service))))"
proof -
  have "map as_progress
        (published_by demo_service
           (snd (analyzePullRequest demo_world_not_found demo_url demo_service)))
      = map snd [(Analyzing, 0), (Analyzing, 10), (Failed, 0)]"
    by (simp only: demo_not_found_published [symmetric] map_map)
      (simp add: phase_progress_def comp_def)
  moreover have "isl (fst (analyzePullRequest demo_world_not_found demo_url demo_service))"
    by (simp add: pipeline_eval demo_eval js_string_eval)
  ultimately show ?thesis by simp
qed

subsection \<open>A failing test generator\<close>

































end
